theory Spec2Isabelle
  imports Main "HOL-Library.AList"
begin

section \<open>JavaScript values\<close>

text \<open>
  The service is written in JavaScript. A value produced by \<^verbatim>\<open>JSON.parse\<close> is a
  \<open>json\<close>; a JavaScript value that may also be \<^verbatim>\<open>undefined\<close> (a missing property,
  a missing argument) is a \<open>json option\<close>, with \<open>None\<close> for \<^verbatim>\<open>undefined\<close>.

  Strings are sequences of code units, here restricted to the code units below 256.
  A number is kept as the exact decimal value of its literal: the sign, the significant
  decimal digits (no leading and no trailing zero; none at all for zero) and the position
  \<open>n\<close> of the decimal point, so that the value is \<open>0.d\<^sub>1\<dots>d\<^sub>k \<times> 10\<^sup>n\<close>. The rounding of
  \<^verbatim>\<open>JSON.parse\<close> to a binary64 float is not modelled.
  An object is the list of its own properties in creation order.
\<close>

datatype json =
    JNull
  | JBool bool
  | JNumber bool string int
  | JString string
  | JArray "json list"
  | JObject "(string \<times> json) list"

type_synonym jsval = "json option"

text \<open>\<^verbatim>\<open>a === b\<close>. Arrays and objects are compared by reference; the values compared in
  this program come from two different parses and are never the same object.\<close>

fun strict_eq :: "jsval \<Rightarrow> jsval \<Rightarrow> bool" where
  "strict_eq None None = True"
| "strict_eq (Some JNull) (Some JNull) = True"
| "strict_eq (Some (JBool a)) (Some (JBool b)) = (a = b)"
| "strict_eq (Some (JNumber s ds n)) (Some (JNumber s' ds' n')) = (s = s' \<and> ds = ds' \<and> n = n')"
| "strict_eq (Some (JString a)) (Some (JString b)) = (a = b)"
| "strict_eq _ _ = False"

text \<open>An exception is a value: \<open>Error msg\<close> for \<^verbatim>\<open>throw new Error(msg)\<close>, and
  \<open>TypeError\<close> for the \<^verbatim>\<open>TypeError\<close> the platform throws (reading a property of
  \<^verbatim>\<open>null\<close>, converting an object that has no primitive value).\<close>

datatype error = Error string | TypeError

definition nullish :: "jsval \<Rightarrow> bool" where
  \<comment> \<open>\<^verbatim>\<open>v == null\<close>: the value is \<^verbatim>\<open>null\<close> or \<^verbatim>\<open>undefined\<close>\<close>
  "nullish v \<longleftrightarrow> v = None \<or> v = Some JNull"

fun ToBoolean :: "json \<Rightarrow> bool" where
  "ToBoolean JNull = False"
| "ToBoolean (JBool b) = b"
| "ToBoolean (JNumber s ds n) = (ds \<noteq> [])"
| "ToBoolean (JString s) = (s \<noteq> [])"
| "ToBoolean (JArray xs) = True"
| "ToBoolean (JObject m) = True"

definition truthy :: "jsval \<Rightarrow> bool" where
  "truthy v = (case v of None \<Rightarrow> False | Some x \<Rightarrow> ToBoolean x)"

text \<open>\<^verbatim>\<open>typeof v === 'object'\<close>, which is true of \<^verbatim>\<open>null\<close> and of arrays as well.\<close>

fun typeof_object :: "jsval \<Rightarrow> bool" where
  "typeof_object (Some JNull) = True"
| "typeof_object (Some (JArray xs)) = True"
| "typeof_object (Some (JObject m)) = True"
| "typeof_object _ = False"

text \<open>
  Reading a property \<^verbatim>\<open>v.k\<close> of a value that is neither \<^verbatim>\<open>null\<close> nor \<^verbatim>\<open>undefined\<close>,
  for the property names this program reads (\<^verbatim>\<open>id\<close>, \<^verbatim>\<open>path\<close>, \<^verbatim>\<open>new_text\<close>, \<^verbatim>\<open>_id\<close>,
  \<^verbatim>\<open>colors\<close>, \<dots>): none of them is defined on the prototype of an object, an array, a
  string, a number or a boolean, so only an own property of an object is found.
\<close>

fun property :: "json \<Rightarrow> string \<Rightarrow> jsval" where
  "property (JObject m) k = map_of m k"
| "property _ k = None"

text \<open>\<^verbatim>\<open>Object.keys(v)\<close> of an object. (JavaScript lists the keys that are array indices
  first; the relative order of all other keys is the order of creation.)\<close>

definition Object_keys :: "(string \<times> json) list \<Rightarrow> string list" where
  "Object_keys m = map fst m"

subsection \<open>Strings\<close>

text \<open>White space as \<^verbatim>\<open>String.prototype.trim\<close> and the regular expression class
  \<^verbatim>\<open>\s\<close> see it, among the code units below 256: TAB, LF, VT, FF, CR, SP, NBSP.\<close>

definition is_space :: "char \<Rightarrow> bool" where
  "is_space c \<longleftrightarrow> c \<in> set [CHR 0x09, CHR 0x0A, CHR 0x0B, CHR 0x0C, CHR 0x0D, CHR 0x20, CHR 0xA0]"

definition trim :: "string \<Rightarrow> string" where
  "trim s = rev (dropWhile is_space (rev (dropWhile is_space s)))"

definition startsWith :: "string \<Rightarrow> string \<Rightarrow> bool" where
  "startsWith s p \<longleftrightarrow> take (length p) s = p"

fun nat_digits :: "nat \<Rightarrow> string" where
  "nat_digits n =
     (if n < 10 then [char_of (48 + n)] else nat_digits (n div 10) @ [char_of (48 + n mod 10)])"

declare nat_digits.simps [simp del]

text \<open>
  \<^verbatim>\<open>Number::toString\<close> in radix 10 (ECMA-262), on the decimal \<open>0.d\<^sub>1\<dots>d\<^sub>k \<times> 10\<^sup>n\<close>:
  plain digits when \<open>k \<le> n \<le> 21\<close>, a decimal point inside when \<open>0 < n \<le> 21\<close>, leading
  \<^verbatim>\<open>0.00\<close> when \<open>-6 < n \<le> 0\<close>, and the exponent form otherwise.
\<close>

definition Number_toString :: "bool \<Rightarrow> string \<Rightarrow> int \<Rightarrow> string" where
  "Number_toString neg ds n =
     (if ds = [] then ''0''
      else (if neg then ''-'' else [])
        @ (let k = int (length ds) in
           if k \<le> n \<and> n \<le> 21 then ds @ replicate (nat (n - k)) (CHR ''0'')
           else if 0 < n \<and> n \<le> 21 then take (nat n) ds @ ''.'' @ drop (nat n) ds
           else if -6 < n \<and> n \<le> 0 then ''0.'' @ replicate (nat (- n)) (CHR ''0'') @ ds
           else (if k = 1 then ds else take 1 ds @ ''.'' @ drop 1 ds)
             @ ''e'' @ (if n - 1 < 0 then ''-'' else ''+'') @ nat_digits (nat \<bar>n - 1\<bar>)))"

text \<open>
  \<^verbatim>\<open>String(v)\<close>. An array is joined with commas (\<^verbatim>\<open>Array.prototype.join\<close>), its
  elements converted in order and \<^verbatim>\<open>null\<close> elements giving the empty string. An object
  is converted by its \<^verbatim>\<open>toString\<close> method: the inherited one gives
  \<^verbatim>\<open>[object Object]\<close>; an object parsed from JSON that has a key \<^verbatim>\<open>toString\<close> of its own
  holds there a value that cannot be called, \<^verbatim>\<open>valueOf\<close> gives no primitive value either,
  and the conversion throws a \<^verbatim>\<open>TypeError\<close>.
\<close>

fun String_js :: "json \<Rightarrow> error + string"
  and join_js :: "json list \<Rightarrow> error + string" where
  "String_js JNull = Inr ''null''"
| "String_js (JBool b) = Inr (if b then ''true'' else ''false'')"
| "String_js (JNumber neg ds n) = Inr (Number_toString neg ds n)"
| "String_js (JString s) = Inr s"
| "String_js (JArray xs) = join_js xs"
| "String_js (JObject m) =
     (if ''toString'' \<in> set (Object_keys m) then Inl TypeError else Inr ''[object Object]'')"
| "join_js [] = Inr []"
| "join_js (x # xs) =
     (case (if x = JNull then Inr [] else String_js x) of
        Inl e \<Rightarrow> Inl e
      | Inr s \<Rightarrow>
          if xs = [] then Inr s
          else (case join_js xs of Inl e \<Rightarrow> Inl e | Inr r \<Rightarrow> Inr (s @ '','' @ r)))"

definition String_val :: "jsval \<Rightarrow> error + string" where
  "String_val v = (case v of None \<Rightarrow> Inr ''undefined'' | Some x \<Rightarrow> String_js x)"


subsection \<open>The fenced code block\<close>

text \<open>
  \<^verbatim>\<open>text.match(/^```(?:json)?\s*([\s\S]*?)```\s*$/)\<close>, as the backtracking matcher runs it:
  the result is the first capture group of the first successful alternative, or \<open>None\<close>
  when \<^verbatim>\<open>match\<close> returns \<^verbatim>\<open>null\<close>. The pattern is anchored, so only position 0 is tried.

  \<open>closes r\<close>: the rest \<open>r\<close> matches \<^verbatim>\<open>```\s*$\<close>.
  \<open>lazy_group acc r\<close>: \<^verbatim>\<open>([\s\S]*?)```\s*$\<close> with \<open>acc\<close> already captured; the lazy star
  tries the shortest capture first and takes one more code unit on failure.
  \<open>greedy_space r\<close>: \<^verbatim>\<open>\s*\<close> followed by the group; the greedy star takes a white space
  first and gives it back when the rest fails.
  \<open>optional_json r\<close>: \<^verbatim>\<open>(?:json)?\<close> followed by the rest; the tag is tried first.
\<close>

definition closes :: "string \<Rightarrow> bool" where
  "closes r \<longleftrightarrow> take 3 r = ''```'' \<and> list_all is_space (drop 3 r)"

fun lazy_group :: "string \<Rightarrow> string \<Rightarrow> string option" where
  "lazy_group acc [] = (if closes [] then Some acc else None)"
| "lazy_group acc (c # cs) =
     (if closes (c # cs) then Some acc else lazy_group (acc @ [c]) cs)"

fun greedy_space :: "string \<Rightarrow> string option" where
  "greedy_space [] = lazy_group [] []"
| "greedy_space (c # cs) =
     (if is_space c
      then (case greedy_space cs of Some m \<Rightarrow> Some m | None \<Rightarrow> lazy_group [] (c # cs))
      else lazy_group [] (c # cs))"

definition optional_json :: "string \<Rightarrow> string option" where
  "optional_json r =
     (case (if take 4 r = ''json'' then greedy_space (drop 4 r) else None) of
        Some m \<Rightarrow> Some m
      | None \<Rightarrow> greedy_space r)"

definition codeBlock :: "string \<Rightarrow> string option" where
  "codeBlock t = (if take 3 t = ''```'' then optional_json (drop 3 t) else None)"

text \<open>
  The first lines of both parsers:
  \<^verbatim>\<open>
  let text = (raw || '').trim();
  const match = text.match(codeBlock);
  if (match) text = match[1].trim();
  \<close>
\<close>

definition strip_fence :: "string \<Rightarrow> string" where
  "strip_fence raw =
     (let t = trim raw in case codeBlock t of Some m \<Rightarrow> trim m | None \<Rightarrow> t)"

text \<open>The fence-wrapped form of a text: \<^verbatim>\<open>```json\<close>, a line feed, the text, a line
  feed, \<^verbatim>\<open>```\<close>.\<close>

definition fenced :: "string \<Rightarrow> string" where
  "fenced s = ''```json'' @ [CHR 0x0A] @ s @ [CHR 0x0A] @ ''```''"

section \<open>\<^verbatim>\<open>JSON.parse\<close>\<close>

text \<open>
  \<^verbatim>\<open>JSON.parse\<close> is a built-in of the platform. It is modelled by a pushdown automaton
  for the JSON grammar (ECMA-404) that reads the text one code unit at a time: \<open>None\<close>
  stands for the \<^verbatim>\<open>SyntaxError\<close> it throws. White space between tokens is TAB, LF, CR
  and SP only. A repeated key keeps its first position and takes the last value. An
  escape \<^verbatim>\<open>\uXXXX\<close> above \<^verbatim>\<open>\u00FF\<close> denotes a code unit outside the modelled range and is
  rejected.
\<close>

definition is_json_space :: "char \<Rightarrow> bool" where
  "is_json_space c \<longleftrightarrow> c \<in> set [CHR 0x09, CHR 0x0A, CHR 0x0D, CHR 0x20]"

definition is_digit :: "char \<Rightarrow> bool" where
  "is_digit c \<longleftrightarrow> c \<in> set ''0123456789''"

definition digit_val :: "char \<Rightarrow> nat" where
  "digit_val c = of_char c - 48"

definition hex_val :: "char \<Rightarrow> nat option" where
  "hex_val c =
     (if is_digit c then Some (of_char c - 48)
      else if c \<in> set ''abcdef'' then Some (of_char c - 87)
      else if c \<in> set ''ABCDEF'' then Some (of_char c - 55)
      else None)"

text \<open>A number literal while it is read: the sign, the integer digits, the fraction
  digits, the sign of the exponent and its digits.\<close>

record literal =
  negative :: bool
  int_digits :: string
  frac_digits :: string
  exp_negative :: bool
  exp_digits :: string

definition number_of :: "literal \<Rightarrow> json" where
  "number_of l =
     (let ds = int_digits l @ frac_digits l;
          z = length (takeWhile (\<lambda>c. c = CHR ''0'') ds);
          sig = rev (dropWhile (\<lambda>c. c = CHR ''0'') (rev (drop z ds)));
          e = int (foldl (\<lambda>a c. 10 * a + digit_val c) 0 (exp_digits l))
      in if sig = [] then JNumber False [] 0
         else JNumber (negative l) sig
                (int (length (int_digits l)) - int z + (if exp_negative l then - e else e)))"

datatype frame = FArray "json list" | FObject "(string \<times> json) list" | FKey string

datatype escape = Plain | Escaped | Unicode "nat list"

datatype phase = NMinus | NZero | NInt | NDot | NFrac | NE | NESign | NExp

datatype mode =
    MValue
  | MValueOrEnd
  | MKeyOrEnd
  | MKey
  | MColon
  | MAfter
  | MString bool string escape
  | MNumber phase literal
  | MLiteral string json

datatype pstate = Parsing mode "frame list" | Done json | Failed

text \<open>A complete value goes to the top level, to the array being read or to the
  key waiting for it.\<close>

fun deliver :: "json \<Rightarrow> frame list \<Rightarrow> pstate" where
  "deliver v [] = Done v"
| "deliver v (FArray xs # st) = Parsing MAfter (FArray (xs @ [v]) # st)"
| "deliver v (FKey k # FObject m # st) = Parsing MAfter (FObject (AList.update k v m) # st)"
| "deliver v _ = Failed"

definition begin_value :: "char \<Rightarrow> frame list \<Rightarrow> pstate" where
  "begin_value c st =
     (let l = \<lparr>negative = False, int_digits = [], frac_digits = [],
                exp_negative = False, exp_digits = []\<rparr> in
      if c = CHR ''{'' then Parsing MKeyOrEnd (FObject [] # st)
      else if c = CHR ''['' then Parsing MValueOrEnd (FArray [] # st)
      else if c = CHR 0x22 then Parsing (MString False [] Plain) st
      else if c = CHR ''-'' then Parsing (MNumber NMinus (l\<lparr>negative := True\<rparr>)) st
      else if c = CHR ''0'' then Parsing (MNumber NZero (l\<lparr>int_digits := [c]\<rparr>)) st
      else if is_digit c then Parsing (MNumber NInt (l\<lparr>int_digits := [c]\<rparr>)) st
      else if c = CHR ''t'' then Parsing (MLiteral ''rue'' (JBool True)) st
      else if c = CHR ''f'' then Parsing (MLiteral ''alse'' (JBool False)) st
      else if c = CHR ''n'' then Parsing (MLiteral ''ull'' JNull) st
      else Failed)"

fun close_array :: "frame list \<Rightarrow> pstate" where
  "close_array (FArray xs # st) = deliver (JArray xs) st"
| "close_array _ = Failed"

fun close_object :: "frame list \<Rightarrow> pstate" where
  "close_object (FObject m # st) = deliver (JObject m) st"
| "close_object _ = Failed"

fun next_item :: "frame list \<Rightarrow> pstate" where
  "next_item (FArray xs # st) = Parsing MValue (FArray xs # st)"
| "next_item (FObject m # st) = Parsing MKey (FObject m # st)"
| "next_item _ = Failed"

definition after_value :: "char \<Rightarrow> frame list \<Rightarrow> pstate" where
  "after_value c st =
     (if is_json_space c then Parsing MAfter st
      else if c = CHR '','' then next_item st
      else if c = CHR '']'' then close_array st
      else if c = CHR ''}'' then close_object st
      else Failed)"

definition end_string :: "bool \<Rightarrow> string \<Rightarrow> frame list \<Rightarrow> pstate" where
  "end_string is_key s st = (if is_key then Parsing MColon (FKey s # st) else deliver (JString s) st)"

definition in_string :: "bool \<Rightarrow> string \<Rightarrow> escape \<Rightarrow> char \<Rightarrow> frame list \<Rightarrow> pstate" where
  "in_string is_key s e c st =
     (case e of
        Plain \<Rightarrow>
          if c = CHR 0x22 then end_string is_key s st
          else if c = CHR 0x5C then Parsing (MString is_key s Escaped) st
          else if (of_char c :: nat) < 32 then Failed
          else Parsing (MString is_key (s @ [c]) Plain) st
      | Escaped \<Rightarrow>
          if c = CHR 0x22 \<or> c = CHR 0x5C \<or> c = CHR ''/'' then Parsing (MString is_key (s @ [c]) Plain) st
          else if c = CHR ''b'' then Parsing (MString is_key (s @ [CHR 0x08]) Plain) st
          else if c = CHR ''f'' then Parsing (MString is_key (s @ [CHR 0x0C]) Plain) st
          else if c = CHR ''n'' then Parsing (MString is_key (s @ [CHR 0x0A]) Plain) st
          else if c = CHR ''r'' then Parsing (MString is_key (s @ [CHR 0x0D]) Plain) st
          else if c = CHR ''t'' then Parsing (MString is_key (s @ [CHR 0x09]) Plain) st
          else if c = CHR ''u'' then Parsing (MString is_key s (Unicode [])) st
          else Failed
      | Unicode hs \<Rightarrow>
          (case hex_val c of
             None \<Rightarrow> Failed
           | Some h \<Rightarrow>
               if length hs < 3 then Parsing (MString is_key s (Unicode (hs @ [h]))) st
               else (let u = foldl (\<lambda>a d. 16 * a + d) 0 (hs @ [h]) in
                     if u < 256 then Parsing (MString is_key (s @ [char_of u]) Plain) st
                     else Failed)))"

text \<open>A number literal ends at the first code unit that cannot continue it; that code
  unit is then read as what follows a value.\<close>

definition end_number :: "literal \<Rightarrow> char \<Rightarrow> frame list \<Rightarrow> pstate" where
  "end_number l c st =
     (case deliver (number_of l) st of
        Parsing m st' \<Rightarrow> after_value c st'
      | Done v \<Rightarrow> if is_json_space c then Done v else Failed
      | Failed \<Rightarrow> Failed)"

definition is_exp :: "char \<Rightarrow> bool" where
  "is_exp c \<longleftrightarrow> c = CHR ''e'' \<or> c = CHR ''E''"

fun in_number :: "phase \<Rightarrow> literal \<Rightarrow> char \<Rightarrow> frame list \<Rightarrow> pstate" where
  "in_number NMinus l c st =
     (if c = CHR ''0'' then Parsing (MNumber NZero (l\<lparr>int_digits := [c]\<rparr>)) st
      else if is_digit c then Parsing (MNumber NInt (l\<lparr>int_digits := [c]\<rparr>)) st
      else Failed)"
| "in_number NZero l c st =
     (if c = CHR ''.'' then Parsing (MNumber NDot l) st
      else if is_exp c then Parsing (MNumber NE l) st
      else end_number l c st)"
| "in_number NInt l c st =
     (if is_digit c then Parsing (MNumber NInt (l\<lparr>int_digits := int_digits l @ [c]\<rparr>)) st
      else if c = CHR ''.'' then Parsing (MNumber NDot l) st
      else if is_exp c then Parsing (MNumber NE l) st
      else end_number l c st)"
| "in_number NDot l c st =
     (if is_digit c then Parsing (MNumber NFrac (l\<lparr>frac_digits := [c]\<rparr>)) st else Failed)"
| "in_number NFrac l c st =
     (if is_digit c then Parsing (MNumber NFrac (l\<lparr>frac_digits := frac_digits l @ [c]\<rparr>)) st
      else if is_exp c then Parsing (MNumber NE l) st
      else end_number l c st)"
| "in_number NE l c st =
     (if c = CHR ''+'' then Parsing (MNumber NESign l) st
      else if c = CHR ''-'' then Parsing (MNumber NESign (l\<lparr>exp_negative := True\<rparr>)) st
      else if is_digit c then Parsing (MNumber NExp (l\<lparr>exp_digits := [c]\<rparr>)) st
      else Failed)"
| "in_number NESign l c st =
     (if is_digit c then Parsing (MNumber NExp (l\<lparr>exp_digits := [c]\<rparr>)) st else Failed)"
| "in_number NExp l c st =
     (if is_digit c then Parsing (MNumber NExp (l\<lparr>exp_digits := exp_digits l @ [c]\<rparr>)) st
      else end_number l c st)"

fun step_mode :: "mode \<Rightarrow> char \<Rightarrow> frame list \<Rightarrow> pstate" where
  "step_mode MValue c st = (if is_json_space c then Parsing MValue st else begin_value c st)"
| "step_mode MValueOrEnd c st =
     (if is_json_space c then Parsing MValueOrEnd st
      else if c = CHR '']'' then close_array st
      else begin_value c st)"
| "step_mode MKeyOrEnd c st =
     (if is_json_space c then Parsing MKeyOrEnd st
      else if c = CHR ''}'' then close_object st
      else if c = CHR 0x22 then Parsing (MString True [] Plain) st
      else Failed)"
| "step_mode MKey c st =
     (if is_json_space c then Parsing MKey st
      else if c = CHR 0x22 then Parsing (MString True [] Plain) st
      else Failed)"
| "step_mode MColon c st =
     (if is_json_space c then Parsing MColon st
      else if c = CHR '':'' then Parsing MValue st
      else Failed)"
| "step_mode MAfter c st = after_value c st"
| "step_mode (MString is_key s e) c st = in_string is_key s e c st"
| "step_mode (MNumber ph l) c st = in_number ph l c st"
| "step_mode (MLiteral [] v) c st = Failed"
| "step_mode (MLiteral (x # xs) v) c st =
     (if c \<noteq> x then Failed else if xs = [] then deliver v st else Parsing (MLiteral xs v) st)"

fun step :: "pstate \<Rightarrow> char \<Rightarrow> pstate" where
  "step (Parsing m st) c = step_mode m c st"
| "step (Done v) c = (if is_json_space c then Done v else Failed)"
| "step Failed c = Failed"

text \<open>At the end of the text the value must be complete; a number at the top level
  ends with the text.\<close>

fun finish :: "pstate \<Rightarrow> json option" where
  "finish (Done v) = Some v"
| "finish (Parsing (MNumber ph l) []) =
     (if ph \<in> set [NZero, NInt, NFrac, NExp] then Some (number_of l) else None)"
| "finish _ = None"

definition JSON_parse :: "string \<Rightarrow> json option" where
  "JSON_parse s = finish (foldl step (Parsing MValue []) s)"

section \<open>The response parsers of \<^verbatim>\<open>llm.js\<close>\<close>

text \<open>\<^verbatim>\<open>a ?? b\<close>, and \<^verbatim>\<open>a ?? d\<close> for a \<open>d\<close> that is a value, and \<^verbatim>\<open>v?.k\<close>.\<close>

definition coalesce :: "jsval \<Rightarrow> jsval \<Rightarrow> jsval" where
  "coalesce a b = (if nullish a then b else a)"

fun or_else :: "jsval \<Rightarrow> json \<Rightarrow> json" where
  "or_else None d = d"
| "or_else (Some JNull) d = d"
| "or_else (Some v) d = v"

fun optional_property :: "jsval \<Rightarrow> string \<Rightarrow> jsval" where
  "optional_property None k = None"
| "optional_property (Some JNull) k = None"
| "optional_property (Some v) k = property v k"

text \<open>\<^verbatim>\<open>xs.find(p)\<close>, where the predicate may throw; \<^verbatim>\<open>xs.includes(v)\<close>.\<close>

fun find_js :: "('a \<Rightarrow> error + bool) \<Rightarrow> 'a list \<Rightarrow> error + 'a option" where
  "find_js p [] = Inr None"
| "find_js p (x # xs) =
     (case p x of
        Inl e \<Rightarrow> Inl e
      | Inr b \<Rightarrow> if b then Inr (Some x) else find_js p xs)"

definition includes_js :: "json list \<Rightarrow> json \<Rightarrow> bool" where
  "includes_js xs v = list_ex (\<lambda>x. strict_eq (Some x) (Some v)) xs"

subsection \<open>Edits\<close>

text \<open>An edit object: \<^verbatim>\<open>id\<close> and \<^verbatim>\<open>path\<close> are always there, every other property is
  present (\<open>Some\<close>) or absent (\<open>None\<close>).\<close>

record edit =
  edit_id :: json
  edit_path :: json
  new_text :: "string option"
  edit_field :: "json option"
  item_index :: "json option"
  new_url :: "json option"
  new_link :: "json option"
  new_image_url :: "json option"
  new_attachment_id :: "json option"
  new_image :: "json option"

definition bare_edit :: "json \<Rightarrow> json \<Rightarrow> edit" where
  \<comment> \<open>\<^verbatim>\<open>{ id, path }\<close>\<close>
  "bare_edit i p =
     \<lparr>edit_id = i, edit_path = p, new_text = None, edit_field = None, item_index = None,
      new_url = None, new_link = None, new_image_url = None, new_attachment_id = None,
      new_image = None\<rparr>"

definition hasEditPayload :: "json \<Rightarrow> bool" where
  "hasEditPayload item \<longleftrightarrow>
     \<not> nullish (property item ''new_text'') \<or>
     \<not> nullish (property item ''new_url'') \<or>
     \<not> nullish (property item ''new_link'') \<or>
     \<not> nullish (property item ''new_image_url'') \<or>
     \<not> nullish (property item ''new_attachment_id'') \<or>
     \<not> nullish (property item ''new_image'')"

text \<open>
  \<^verbatim>\<open>(d) => d.path === item.path || d.id === item.id\<close>: reading a property of a
  \<^verbatim>\<open>null\<close> entry throws.
\<close>

definition same_slot :: "json \<Rightarrow> json \<Rightarrow> error + bool" where
  "same_slot item d =
     (if d = JNull then Inl TypeError
      else Inr (strict_eq (property d ''path'') (property item ''path'')
                \<or> strict_eq (property d ''id'') (property item ''id'')))"

text \<open>
  \<^verbatim>\<open>
  function resolveIdPath(item, dictionary, image_slots) {
    const fromDict = dictionary.find((d) => d.path === item.path || d.id === item.id);
    const fromSlots = image_slots && image_slots.find((s) => s.path === item.path || s.id === item.id);
    const source = fromDict || fromSlots;
    return { id: item.id ?? source?.id ?? '', path: item.path ?? source?.path ?? '' };
  }
  \<close>
  Both arguments are arrays where the function is called (an array is truthy, so the
  second search always runs).
\<close>

definition resolveIdPath :: "json \<Rightarrow> json list \<Rightarrow> json list \<Rightarrow> error + (json \<times> json)" where
  "resolveIdPath item dictionary image_slots =
     (case find_js (same_slot item) dictionary of
        Inl e \<Rightarrow> Inl e
      | Inr fromDict \<Rightarrow>
          (case find_js (same_slot item) image_slots of
             Inl e \<Rightarrow> Inl e
           | Inr fromSlots \<Rightarrow>
               (let source = (if truthy fromDict then fromDict else fromSlots) in
                Inr (or_else (coalesce (property item ''id'') (optional_property source ''id''))
                       (JString []),
                     or_else (coalesce (property item ''path'') (optional_property source ''path''))
                       (JString [])))))"

text \<open>
  \<^verbatim>\<open>
  function filterByCapabilities(edit, edit_capabilities) {
    const out = { id: edit.id, path: edit.path };
    if (edit_capabilities.includes('text') && edit.new_text != null) {
      out.new_text = edit.new_text;
      if (edit.field != null) out.field = edit.field;
      if (edit.item_index != null) out.item_index = edit.item_index;
    }
    if (edit_capabilities.includes('url')) {
      if (edit.new_url != null) out.new_url = edit.new_url;
      if (edit.new_link != null) out.new_link = edit.new_link;
    }
    if (edit_capabilities.includes('image')) {
      if (edit.new_image_url != null) out.new_image_url = edit.new_image_url;
      if (edit.new_attachment_id != null) out.new_attachment_id = edit.new_attachment_id;
      if (edit.new_image != null) out.new_image = edit.new_image;
    }
    const hasPayload = 'new_text' in out || 'new_url' in out || 'new_link' in out
      || 'new_image_url' in out || 'new_attachment_id' in out || 'new_image' in out;
    return hasPayload ? out : null;
  }
  \<close>
  The result \<open>None\<close> is \<^verbatim>\<open>null\<close>.
\<close>

definition copy_text :: "json list \<Rightarrow> edit \<Rightarrow> edit \<Rightarrow> edit" where
  "copy_text caps e out =
     (if includes_js caps (JString ''text'') \<and> new_text e \<noteq> None
      then out\<lparr>new_text := new_text e,
               edit_field := (if \<not> nullish (edit_field e) then edit_field e else None),
               item_index := (if \<not> nullish (item_index e) then item_index e else None)\<rparr>
      else out)"

definition copy_url :: "json list \<Rightarrow> edit \<Rightarrow> edit \<Rightarrow> edit" where
  "copy_url caps e out =
     (if includes_js caps (JString ''url'')
      then out\<lparr>new_url := (if \<not> nullish (new_url e) then new_url e else None),
               new_link := (if \<not> nullish (new_link e) then new_link e else None)\<rparr>
      else out)"

definition copy_image :: "json list \<Rightarrow> edit \<Rightarrow> edit \<Rightarrow> edit" where
  "copy_image caps e out =
     (if includes_js caps (JString ''image'')
      then out\<lparr>new_image_url := (if \<not> nullish (new_image_url e) then new_image_url e else None),
               new_attachment_id :=
                 (if \<not> nullish (new_attachment_id e) then new_attachment_id e else None),
               new_image := (if \<not> nullish (new_image e) then new_image e else None)\<rparr>
      else out)"

definition hasPayload :: "edit \<Rightarrow> bool" where
  "hasPayload out \<longleftrightarrow>
     new_text out \<noteq> None \<or> new_url out \<noteq> None \<or> new_link out \<noteq> None \<or>
     new_image_url out \<noteq> None \<or> new_attachment_id out \<noteq> None \<or> new_image out \<noteq> None"

definition filterByCapabilities :: "edit \<Rightarrow> json list \<Rightarrow> edit option" where
  "filterByCapabilities e edit_capabilities =
     (let out = copy_image edit_capabilities e
                  (copy_url edit_capabilities e
                    (copy_text edit_capabilities e (bare_edit (edit_id e) (edit_path e))))
      in if hasPayload out then Some out else None)"

text \<open>
  \<^verbatim>\<open>
  function parseEditsFromLLM(raw, dictionary, image_slots = [], edit_capabilities = ['text']) {
    let text = (raw || '').trim();
    const codeBlock = /^```(?:json)?\s*([\s\S]*?)```\s*$/;
    const match = text.match(codeBlock);
    if (match) text = match[1].trim();
    let arr;
    try { arr = JSON.parse(text); } catch { throw new Error('Invalid LLM response'); }
    if (!Array.isArray(arr)) throw new Error('Invalid LLM response');
    const slots = Array.isArray(image_slots) ? image_slots : [];
    const caps = Array.isArray(edit_capabilities) ? edit_capabilities : ['text'];
    return arr
      .filter((item) => item && (item.id != null || item.path != null) && hasEditPayload(item))
      .map((item) => {
        const { id, path } = resolveIdPath(item, dictionary, slots);
        const edit = { id, path };
        if (item.new_text != null) {
          edit.new_text = String(item.new_text);
          if (item.field != null) edit.field = item.field;
          if (item.item_index != null) edit.item_index = item.item_index;
        }
        if (item.new_url != null) edit.new_url = item.new_url;
        if (item.new_link != null) edit.new_link = item.new_link;
        if (item.new_image_url != null) edit.new_image_url = item.new_image_url;
        if (item.new_attachment_id != null) edit.new_attachment_id = item.new_attachment_id;
        if (item.new_image != null) edit.new_image = item.new_image;
        return filterByCapabilities(edit, caps);
      })
      .filter((e) => e != null)
      .filter((e) => e.id !== '' || e.path !== '');
  }
  \<close>
  \<open>candidate\<close> is the predicate of the first filter, \<open>edit_of\<close> the callback of the map
  (the first exception ends the call), \<open>addressed\<close> the predicate of the last filter.
  The dictionary is an array at every call.
\<close>

definition candidate :: "json \<Rightarrow> bool" where
  "candidate item \<longleftrightarrow>
     ToBoolean item
     \<and> (\<not> nullish (property item ''id'') \<or> \<not> nullish (property item ''path''))
     \<and> hasEditPayload item"

definition present :: "jsval \<Rightarrow> jsval" where
  \<comment> \<open>the property set by \<^verbatim>\<open>if (v != null) edit.k = v\<close>\<close>
  "present v = (if \<not> nullish v then v else None)"

definition copy_links_images :: "json \<Rightarrow> edit \<Rightarrow> edit" where
  "copy_links_images item e =
     e\<lparr>new_url := present (property item ''new_url''),
       new_link := present (property item ''new_link''),
       new_image_url := present (property item ''new_image_url''),
       new_attachment_id := present (property item ''new_attachment_id''),
       new_image := present (property item ''new_image'')\<rparr>"

definition copy_item :: "json \<Rightarrow> json \<Rightarrow> json \<Rightarrow> error + edit" where
  "copy_item item i p =
     (if \<not> nullish (property item ''new_text'')
      then (case String_val (property item ''new_text'') of
              Inl e \<Rightarrow> Inl e
            | Inr s \<Rightarrow>
                Inr (copy_links_images item
                  ((bare_edit i p)\<lparr>new_text := Some s,
                     edit_field := present (property item ''field''),
                     item_index := present (property item ''item_index'')\<rparr>)))
      else Inr (copy_links_images item (bare_edit i p)))"

definition edit_of :: "json list \<Rightarrow> json list \<Rightarrow> json list \<Rightarrow> json \<Rightarrow> error + edit option" where
  "edit_of dictionary slots caps item =
     (case resolveIdPath item dictionary slots of
        Inl e \<Rightarrow> Inl e
      | Inr (i, p) \<Rightarrow>
          (case copy_item item i p of
             Inl e \<Rightarrow> Inl e
           | Inr e \<Rightarrow> Inr (filterByCapabilities e caps)))"

fun map_js :: "('a \<Rightarrow> error + 'b) \<Rightarrow> 'a list \<Rightarrow> error + 'b list" where
  "map_js f [] = Inr []"
| "map_js f (x # xs) =
     (case f x of
        Inl e \<Rightarrow> Inl e
      | Inr y \<Rightarrow> (case map_js f xs of Inl e \<Rightarrow> Inl e | Inr ys \<Rightarrow> Inr (y # ys)))"

definition addressed :: "edit \<Rightarrow> bool" where
  "addressed e \<longleftrightarrow> edit_id e \<noteq> JString [] \<or> edit_path e \<noteq> JString []"

fun non_null :: "'a option list \<Rightarrow> 'a list" where
  "non_null [] = []"
| "non_null (None # xs) = non_null xs"
| "non_null (Some x # xs) = x # non_null xs"

definition edits_of_array ::
  "json list \<Rightarrow> json list \<Rightarrow> json list \<Rightarrow> json list \<Rightarrow> error + edit list" where
  "edits_of_array arr dictionary slots caps =
     (case map_js (edit_of dictionary slots caps) (filter candidate arr) of
        Inl e \<Rightarrow> Inl e
      | Inr es \<Rightarrow> Inr (filter addressed (non_null es)))"

text \<open>
  \<^verbatim>\<open>Array.isArray(image_slots) ? image_slots : []\<close> and
  \<^verbatim>\<open>Array.isArray(edit_capabilities) ? edit_capabilities : ['text']\<close>; an argument that
  is \<^verbatim>\<open>undefined\<close> takes its default, \<^verbatim>\<open>[]\<close> and \<^verbatim>\<open>['text']\<close>, first.
\<close>

fun slots_of :: "jsval \<Rightarrow> json list" where
  "slots_of (Some (JArray xs)) = xs"
| "slots_of _ = []"

fun caps_of :: "jsval \<Rightarrow> json list" where
  "caps_of (Some (JArray xs)) = xs"
| "caps_of _ = [JString ''text'']"

definition parseEditsFromLLM :: "string \<Rightarrow> json list \<Rightarrow> jsval \<Rightarrow> jsval \<Rightarrow> error + edit list" where
  "parseEditsFromLLM raw dictionary image_slots edit_capabilities =
     (case JSON_parse (strip_fence raw) of
        None \<Rightarrow> Inl (Error ''Invalid LLM response'')
      | Some (JArray arr) \<Rightarrow>
          (let slots = slots_of image_slots;
               caps = caps_of edit_capabilities
           in edits_of_array arr dictionary slots caps)
      | Some _ \<Rightarrow> Inl (Error ''Invalid LLM response''))"


subsection \<open>Kit patches\<close>

record kit_color =
  color_id :: string
  color_title :: string
  color_value :: string

text \<open>A typography entry of the patch: \<^verbatim>\<open>_id\<close>, the optional \<^verbatim>\<open>title\<close>, and the
  copied \<^verbatim>\<open>typography_*\<close> properties in the order of their creation.\<close>

record kit_typography =
  typography_id :: string
  typography_title :: "string option"
  typography_fields :: "(string \<times> json) list"

record kit_patch =
  colors :: "kit_color list option"
  typography :: "kit_typography list option"
  settings :: "json option"

text \<open>
  \<^verbatim>\<open>
  function parseKitPatchFromLLM(raw) {
    let text = (raw || '').trim();
    const codeBlock = /^```(?:json)?\s*([\s\S]*?)```\s*$/;
    const match = text.match(codeBlock);
    if (match) text = match[1].trim();
    let obj;
    try { obj = JSON.parse(text); } catch { throw new Error('Invalid LLM response for kit'); }
    if (obj == null || typeof obj !== 'object') throw new Error('Invalid LLM response for kit');
    const kit_patch = {};
    if (Array.isArray(obj.colors) && obj.colors.length > 0) {
      kit_patch.colors = obj.colors
        .filter((c) => c && typeof c === 'object' && c._id != null)
        .map((c) => ({
          _id: String(c._id),
          title: c.title != null ? String(c.title) : '',
          value: typeof c.value === 'string' ? c.value.trim()
                 : (c.value != null ? String(c.value) : '')
        }))
        .filter((c) => c.value !== '');
    }
    if (Array.isArray(obj.typography) && obj.typography.length > 0) {
      kit_patch.typography = obj.typography
        .filter((t) => t && typeof t === 'object' && t._id != null)
        .map((t) => {
          const out = { _id: String(t._id) };
          if (t.title != null) out.title = String(t.title);
          Object.keys(t).forEach((k) => {
            if (k !== '_id' && k !== 'title' && k.startsWith('typography_')
                && t[k] !== undefined && t[k] !== null) {
              out[k] = t[k];
            }
          });
          return out;
        })
        .filter((t) => Object.keys(t).length > 1);
    }
    if (obj.settings != null && typeof obj.settings === 'object') {
      kit_patch.settings = obj.settings;
    }
    return kit_patch;
  }
  \<close>
\<close>

definition identified :: "json \<Rightarrow> bool" where
  \<comment> \<open>\<^verbatim>\<open>(c) => c && typeof c === 'object' && c._id != null\<close>\<close>
  "identified c \<longleftrightarrow> ToBoolean c \<and> typeof_object (Some c) \<and> \<not> nullish (property c ''_id'')"

text \<open>The three properties of a color, converted in the order of the object literal;
  the first conversion that throws ends the call.\<close>

definition title_of :: "json \<Rightarrow> error + string" where
  \<comment> \<open>\<^verbatim>\<open>c.title != null ? String(c.title) : ''\<close>\<close>
  "title_of c = (if \<not> nullish (property c ''title'') then String_val (property c ''title'') else Inr [])"

definition value_of :: "json \<Rightarrow> error + string" where
  \<comment> \<open>\<^verbatim>\<open>typeof c.value === 'string' ? c.value.trim() : (c.value != null ? String(c.value) : '')\<close>\<close>
  "value_of c =
     (case property c ''value'' of
        Some (JString s) \<Rightarrow> Inr (trim s)
      | v \<Rightarrow> if \<not> nullish v then String_val v else Inr [])"

definition color_of :: "json \<Rightarrow> error + kit_color" where
  "color_of c =
     (case String_val (property c ''_id'') of
        Inl e \<Rightarrow> Inl e
      | Inr i \<Rightarrow>
          (case title_of c of
             Inl e \<Rightarrow> Inl e
           | Inr t \<Rightarrow>
               (case value_of c of
                  Inl e \<Rightarrow> Inl e
                | Inr v \<Rightarrow> Inr \<lparr>color_id = i, color_title = t, color_value = v\<rparr>)))"

definition parse_colors :: "json list \<Rightarrow> error + kit_color list" where
  "parse_colors cs =
     (case map_js color_of (filter identified cs) of
        Inl e \<Rightarrow> Inl e
      | Inr ks \<Rightarrow> Inr (filter (\<lambda>c. color_value c \<noteq> []) ks))"

fun own_properties :: "json \<Rightarrow> (string \<times> json) list" where
  "own_properties (JObject m) = m"
| "own_properties _ = []"

definition copy_key :: "json \<Rightarrow> (string \<times> json) list \<Rightarrow> string \<Rightarrow> (string \<times> json) list" where
  "copy_key t out k =
     (if k \<noteq> ''_id'' \<and> k \<noteq> ''title'' \<and> startsWith k ''typography_'' \<and> property t k \<noteq> None
         \<and> property t k \<noteq> Some JNull
      then AList.update k (or_else (property t k) JNull) out
      else out)"

definition typography_of :: "json \<Rightarrow> error + kit_typography" where
  "typography_of t =
     (case String_val (property t ''_id'') of
        Inl e \<Rightarrow> Inl e
      | Inr i \<Rightarrow>
          (case (if \<not> nullish (property t ''title'')
                 then (case String_val (property t ''title'') of
                         Inl e \<Rightarrow> Inl e
                       | Inr s \<Rightarrow> Inr (Some s))
                 else Inr None) of
             Inl e \<Rightarrow> Inl e
           | Inr title \<Rightarrow>
               Inr \<lparr>typography_id = i, typography_title = title,
                    typography_fields = foldl (copy_key t) [] (Object_keys (own_properties t))\<rparr>))"

definition count_keys :: "kit_typography \<Rightarrow> nat" where
  \<comment> \<open>\<^verbatim>\<open>Object.keys(t).length\<close>\<close>
  "count_keys t =
     1 + (case typography_title t of None \<Rightarrow> 0 | Some x \<Rightarrow> 1) + length (typography_fields t)"

definition parse_typography :: "json list \<Rightarrow> error + kit_typography list" where
  "parse_typography ts =
     (case map_js typography_of (filter identified ts) of
        Inl e \<Rightarrow> Inl e
      | Inr ks \<Rightarrow> Inr (filter (\<lambda>t. count_keys t > 1) ks))"

text \<open>The three keys of the patch, in the order of the source; a key that is not set is
  \<open>None\<close>.\<close>

definition patch_colors :: "json \<Rightarrow> error + kit_color list option" where
  "patch_colors obj =
     (case property obj ''colors'' of
        Some (JArray cs) \<Rightarrow>
          if length cs > 0
          then (case parse_colors cs of Inl e \<Rightarrow> Inl e | Inr ks \<Rightarrow> Inr (Some ks))
          else Inr None
      | _ \<Rightarrow> Inr None)"

definition patch_typography :: "json \<Rightarrow> error + kit_typography list option" where
  "patch_typography obj =
     (case property obj ''typography'' of
        Some (JArray ts) \<Rightarrow>
          if length ts > 0
          then (case parse_typography ts of Inl e \<Rightarrow> Inl e | Inr ks \<Rightarrow> Inr (Some ks))
          else Inr None
      | _ \<Rightarrow> Inr None)"

definition patch_settings :: "json \<Rightarrow> json option" where
  "patch_settings obj =
     (if \<not> nullish (property obj ''settings'') \<and> typeof_object (property obj ''settings'')
      then property obj ''settings'' else None)"

definition kit_patch_of :: "json \<Rightarrow> error + kit_patch" where
  "kit_patch_of obj =
     (case patch_colors obj of
        Inl e \<Rightarrow> Inl e
      | Inr c \<Rightarrow>
          (case patch_typography obj of
             Inl e \<Rightarrow> Inl e
           | Inr t \<Rightarrow> Inr \<lparr>colors = c, typography = t, settings = patch_settings obj\<rparr>))"

definition parseKitPatchFromLLM :: "string \<Rightarrow> error + kit_patch" where
  "parseKitPatchFromLLM raw =
     (case JSON_parse (strip_fence raw) of
        None \<Rightarrow> Inl (Error ''Invalid LLM response for kit'')
      | Some obj \<Rightarrow>
          if nullish (Some obj) \<or> \<not> typeof_object (Some obj)
          then Inl (Error ''Invalid LLM response for kit'')
          else kit_patch_of obj)"

section \<open>The store of recent requests\<close>

text \<open>
  \<^verbatim>\<open>
  const MAX_REQUESTS = 50;
  const requests = [];
  function addRequest(id, body, response, contextType) {
    const record = { id, timestamp: new Date().toISOString(), body, response,
                     contextType: contextType === 'kit' ? 'kit' : 'page' };
    requests.unshift(record);
    if (requests.length > MAX_REQUESTS) { requests.pop(); }
  }
  function getRequests() { return [...requests]; }
  \<close>
  Arrays are mutable objects, so the module's state is a heap of arrays: each address
  holds the sequence of records of one array, and \<open>fresh\<close> is the next address an
  allocation returns. The constant \<^verbatim>\<open>requests\<close> is bound to the address \<open>requests\<close>.
  The body and the response are opaque to the store. The clock is an input. A record
  is a value: the source never assigns to a record once it is created (the copy that
  \<^verbatim>\<open>getRequests\<close> returns is a new array of the same record objects).
\<close>

record ('b, 'r) audit_record =
  request_id :: string
  timestamp :: string
  body :: 'b
  response :: 'r
  contextType :: string

type_synonym addr = nat

record ('b, 'r) store =
  heap :: "addr \<Rightarrow> ('b, 'r) audit_record list"
  fresh :: addr

definition MAX_REQUESTS :: nat where
  "MAX_REQUESTS = 50"

definition requests :: addr where
  "requests = 0"

definition init_store :: "('b, 'r) store" where
  "init_store = \<lparr>heap = (\<lambda>_. []), fresh = 1\<rparr>"

definition unshift :: "'a \<Rightarrow> 'a list \<Rightarrow> 'a list" where
  "unshift x xs = x # xs"

definition pop :: "'a list \<Rightarrow> 'a list" where
  "pop xs = butlast xs"

definition new_record :: "string \<Rightarrow> 'b \<Rightarrow> 'r \<Rightarrow> jsval \<Rightarrow> string \<Rightarrow> ('b, 'r) audit_record" where
  "new_record i b r c now =
     \<lparr>request_id = i, timestamp = now, body = b, response = r,
      contextType = (if strict_eq c (Some (JString ''kit'')) then ''kit'' else ''page'')\<rparr>"

definition addRequest ::
  "string \<Rightarrow> 'b \<Rightarrow> 'r \<Rightarrow> jsval \<Rightarrow> string \<Rightarrow> ('b, 'r) store \<Rightarrow> ('b, 'r) store" where
  "addRequest i b r c now s =
     (let rs = unshift (new_record i b r c now) (heap s requests);
          rs' = (if length rs > MAX_REQUESTS then pop rs else rs)
      in s\<lparr>heap := (heap s)(requests := rs')\<rparr>)"

text \<open>\<^verbatim>\<open>[...requests]\<close> allocates a new array with the same elements.\<close>

definition getRequests :: "('b, 'r) store \<Rightarrow> addr \<times> ('b, 'r) store" where
  "getRequests s =
     (fresh s, s\<lparr>heap := (heap s)(fresh s := heap s requests), fresh := Suc (fresh s)\<rparr>)"

text \<open>Any mutation of the array at address \<open>a\<close> (push, pop, assignment to an index)
  replaces the sequence held there.\<close>

definition mutate_array :: "addr \<Rightarrow> ('b, 'r) audit_record list \<Rightarrow> ('b, 'r) store \<Rightarrow> ('b, 'r) store" where
  "mutate_array a xs s = s\<lparr>heap := (heap s)(a := xs)\<rparr>"

text \<open>One call of \<^verbatim>\<open>addRequest\<close>: its four arguments and the clock reading.\<close>

type_synonym ('b, 'r) call = "string \<times> 'b \<times> 'r \<times> jsval \<times> string"

fun record_of :: "('b, 'r) call \<Rightarrow> ('b, 'r) audit_record" where
  "record_of (i, b, r, c, now) = new_record i b r c now"

fun add_call :: "('b, 'r) store \<Rightarrow> ('b, 'r) call \<Rightarrow> ('b, 'r) store" where
  "add_call s (i, b, r, c, now) = addRequest i b r c now s"

definition add_calls :: "('b, 'r) call list \<Rightarrow> ('b, 'r) store \<Rightarrow> ('b, 'r) store" where
  "add_calls cs s = foldl add_call s cs"

text \<open>
  What the rest of the program can do with the module: call \<^verbatim>\<open>addRequest\<close>, call
  \<^verbatim>\<open>getRequests\<close> and keep the array it returns, and mutate an array it holds. \<open>held\<close>
  lists the addresses of the arrays handed out so far.
\<close>

datatype ('b, 'r) action =
    Add "('b, 'r) call"
  | Get
  | Mutate addr "('b, 'r) audit_record list"

fun act :: "('b, 'r) store \<times> addr list \<Rightarrow> ('b, 'r) action \<Rightarrow> ('b, 'r) store \<times> addr list" where
  "act (s, held) (Add c) = (add_call s c, held)"
| "act (s, held) Get = (snd (getRequests s), fst (getRequests s) # held)"
| "act (s, held) (Mutate a xs) = (if a \<in> set held then mutate_array a xs s else s, held)"

definition run :: "('b, 'r) action list \<Rightarrow> ('b, 'r) store \<times> addr list" where
  "run acts = foldl act (init_store, []) acts"

fun added :: "('b, 'r) action list \<Rightarrow> ('b, 'r) call list" where
  "added [] = []"
| "added (Add c # acts) = c # added acts"
| "added (Get # acts) = added acts"
| "added (Mutate a xs # acts) = added acts"

subsection \<open>Properties of the store\<close>

lemma heap_addRequest:
  "length (heap s requests) \<le> MAX_REQUESTS \<Longrightarrow>
   heap (addRequest i b r c now s) requests = take MAX_REQUESTS (new_record i b r c now # heap s requests)"
  by (cases "length (heap s requests) = MAX_REQUESTS")
     (simp_all add: addRequest_def unshift_def pop_def Let_def butlast_conv_take)

lemma fresh_addRequest: "fresh (addRequest i b r c now s) = fresh s"
  by (simp add: addRequest_def Let_def)

lemma heap_add_calls:
  "length (heap s requests) \<le> MAX_REQUESTS \<Longrightarrow>
   heap (add_calls cs s) requests = take MAX_REQUESTS (rev (map record_of cs) @ heap s requests)"
proof (induction cs arbitrary: s)
  case Nil
  then show ?case by (simp add: add_calls_def)
next
  case (Cons c cs)
  obtain i b r ct now where c: "c = (i, b, r, ct, now)"
    by (cases c) auto
  let ?s = "addRequest i b r ct now s"
  have h: "heap ?s requests = take MAX_REQUESTS (record_of c # heap s requests)"
    using Cons.prems by (simp add: heap_addRequest c)
  then have len: "length (heap ?s requests) \<le> MAX_REQUESTS"
    by simp
  have "heap (add_calls (c # cs) s) requests = heap (add_calls cs ?s) requests"
    by (simp add: add_calls_def c)
  also have "\<dots> = take MAX_REQUESTS (rev (map record_of cs) @ heap ?s requests)"
    by (rule Cons.IH [OF len])
  also have "\<dots> = take MAX_REQUESTS (rev (map record_of cs) @ record_of c # heap s requests)"
    by (simp add: h take_Cons' min_def split: nat.splits)
  finally show ?case by simp
qed


lemma buffer_from_init:
  "heap (add_calls cs init_store) requests = take MAX_REQUESTS (rev (map record_of cs))"
  using heap_add_calls [of init_store cs] by (simp add: init_store_def)

lemma heap_act:
  assumes "length (heap s requests) \<le> MAX_REQUESTS" and "requests < fresh s"
    and "requests \<notin> set held"
  shows "heap (fst (foldl act (s, held) acts)) requests
     = take MAX_REQUESTS (rev (map record_of (added acts)) @ heap s requests)"
  using assms
proof (induction acts arbitrary: s held)
  case Nil
  then show ?case by simp
next
  case (Cons a acts)
  show ?case
  proof (cases a)
    case (Add c)
    obtain i b r ct now where c: "c = (i, b, r, ct, now)"
      by (cases c) auto
    let ?s = "addRequest i b r ct now s"
    have h: "heap ?s requests = take MAX_REQUESTS (record_of c # heap s requests)"
      using Cons.prems(1) by (simp add: heap_addRequest c)
    then have len: "length (heap ?s requests) \<le> MAX_REQUESTS"
      by simp
    have fresh: "requests < fresh ?s"
      using Cons.prems(2) by (simp add: fresh_addRequest)
    have "heap (fst (foldl act (s, held) (a # acts))) requests
        = heap (fst (foldl act (?s, held) acts)) requests"
      by (simp add: Add c)
    also have "\<dots> = take MAX_REQUESTS (rev (map record_of (added acts)) @ heap ?s requests)"
      by (rule Cons.IH [OF len fresh Cons.prems(3)])
    also have "\<dots> = take MAX_REQUESTS (rev (map record_of (added acts)) @ record_of c # heap s requests)"
      by (simp add: h take_Cons' min_def split: nat.splits)
    finally show ?thesis by (simp add: Add)
  next
    case Get
    let ?s = "snd (getRequests s)"
    have same: "heap ?s requests = heap s requests"
      using Cons.prems(2) by (simp add: getRequests_def)
    have len: "length (heap ?s requests) \<le> MAX_REQUESTS"
      using Cons.prems(1) by (simp add: same)
    have fresh: "requests < fresh ?s"
      using Cons.prems(2) by (simp add: getRequests_def)
    have held: "requests \<notin> set (fst (getRequests s) # held)"
      using Cons.prems(2,3) by (simp add: getRequests_def)
    show ?thesis
      using Cons.IH [OF len fresh held] by (simp add: Get same)
  next
    case (Mutate b xs)
    let ?s = "if b \<in> set held then mutate_array b xs s else s"
    have same: "heap ?s requests = heap s requests"
      using Cons.prems(3) by (auto simp: mutate_array_def)
    have len: "length (heap ?s requests) \<le> MAX_REQUESTS"
      using Cons.prems(1) by (simp only: same)
    have fresh: "requests < fresh ?s"
      using Cons.prems(2) by (simp add: mutate_array_def)
    show ?thesis
      using Cons.IH [OF len fresh Cons.prems(3)] by (simp add: Mutate same)
  qed
qed

lemma buffer_after_run:
  "heap (fst (run acts)) requests = take MAX_REQUESTS (rev (map record_of (added acts)))"
  using heap_act [of init_store "[]" acts] by (simp add: run_def init_store_def requests_def)

lemma contextType_new_record:
  "contextType (new_record i b r c now) = ''kit'' \<or> contextType (new_record i b r c now) = ''page''"
  by (simp add: new_record_def)

lemma contextType_record_of:
  "contextType (record_of c) = ''kit'' \<or> contextType (record_of c) = ''page''"
  by (cases c) (simp add: contextType_new_record)

subsection \<open>Properties of the fenced code block\<close>

lemma not_space_backtick: "\<not> is_space (CHR 0x60)"
  by (simp add: is_space_def)

lemma closes_backtick_end:
  assumes "closes (y @ ''```'')" shows "y = []"
proof (rule ccontr)
  assume "y \<noteq> []"
  have "length (drop 3 (y @ ''```'')) = length y" by simp
  with \<open>y \<noteq> []\<close> have "drop 3 (y @ ''```'') \<noteq> []" by (metis length_0_conv)
  moreover have "last (drop 3 (y @ ''```'')) = last (y @ ''```'')"
    by (rule last_drop) (use \<open>y \<noteq> []\<close> in simp)
  then have "last (drop 3 (y @ ''```'')) = CHR 0x60"
    by simp
  ultimately have "\<not> list_all is_space (drop 3 (y @ ''```''))"
    using not_space_backtick by (metis last_in_set list_all_iff)
  with assms show False by (simp add: closes_def)
qed

lemma closes_fence: "closes ''```''"
  by (simp add: closes_def)

lemma lazy_group_fence: "lazy_group acc (y @ ''```'') = Some (acc @ y)"
proof (induction y arbitrary: acc)
  case Nil
  show ?case using closes_fence by simp
next
  case (Cons c y)
  have "\<not> closes ((c # y) @ ''```'')"
    using closes_backtick_end [of "c # y"] by blast
  then show ?case using Cons.IH [of "acc @ [c]"] by simp
qed

lemma greedy_space_skip:
  assumes "list_all is_space w" and "q = [] \<or> \<not> is_space (hd q)" and "lazy_group [] q = Some m"
  shows "greedy_space (w @ q) = Some m"
  using assms
proof (induction w)
  case Nil
  then show ?case by (cases q) auto
next
  case (Cons c w)
  then show ?case by simp
qed

lemma greedy_space_fence:
  "greedy_space (x @ ''```'') = Some (dropWhile is_space x)"
proof -
  let ?q = "dropWhile is_space x @ ''```''"
  have 1: "list_all is_space (takeWhile is_space x)"
    by (simp add: list_all_iff) (meson set_takeWhileD)
  have 2: "?q = [] \<or> \<not> is_space (hd ?q)"
  proof (cases "dropWhile is_space x")
    case Nil
    show ?thesis unfolding Nil by (simp add: not_space_backtick)
  next
    case (Cons a list)
    then have "\<not> is_space a"
      by (metis hd_dropWhile list.sel(1) list.simps(3))
    with Cons show ?thesis by simp
  qed
  have 3: "lazy_group [] ?q = Some (dropWhile is_space x)"
    using lazy_group_fence [of "[]"] by simp
  have "greedy_space (takeWhile is_space x @ ?q) = Some (dropWhile is_space x)"
    by (rule greedy_space_skip [OF 1 2 3])
  then show ?thesis by (simp flip: append_assoc)
qed

lemma trim_dropWhile: "trim (dropWhile is_space s) = trim s"
  by (simp add: trim_def)

lemma trim_snoc_space: "is_space c \<Longrightarrow> trim (s @ [c]) = trim s"
proof (cases "list_all is_space s")
  case True
  assume "is_space c"
  with True have a: "dropWhile is_space (s @ [c]) = []" and b: "dropWhile is_space s = []"
    by (simp_all add: list_all_iff)
  show ?thesis unfolding trim_def a b by simp
next
  case False
  assume c: "is_space c"
  from False have "dropWhile is_space (s @ [c]) = dropWhile is_space s @ [c]"
    by (auto simp: list_all_iff dropWhile_append1)
  then show ?thesis using c by (simp add: trim_def)
qed

lemma trim_fenced: "trim (fenced s) = fenced s"
  by (simp add: trim_def fenced_def is_space_def)

lemma codeBlock_fenced: "codeBlock (fenced s) = Some (dropWhile is_space (s @ [CHR 0x0A]))"
proof -
  have "greedy_space ((CHR 0x0A # s @ [CHR 0x0A]) @ ''```'') = Some (dropWhile is_space (CHR 0x0A # s @ [CHR 0x0A]))"
    by (rule greedy_space_fence)
  then have "greedy_space (CHR 0x0A # s @ CHR 0x0A # ''```'') = Some (dropWhile is_space (s @ [CHR 0x0A]))"
    by (simp add: is_space_def)
  then show ?thesis
    by (simp add: codeBlock_def optional_json_def fenced_def)
qed

lemma strip_fence_fenced: "strip_fence (fenced s) = trim s"
  by (simp add: strip_fence_def trim_fenced codeBlock_fenced trim_dropWhile trim_snoc_space is_space_def)

subsection \<open>A JSON text is not fenced\<close>

lemma foldl_step_Failed: "foldl step Failed s = Failed"
  by (induction s) auto

lemma JSON_parse_first:
  "finish (foldl step (Parsing MValue []) s) \<noteq> None \<Longrightarrow>
   \<exists>c r. dropWhile is_json_space s = c # r \<and> begin_value c [] \<noteq> Failed"
proof (induction s)
  case Nil
  then show ?case by simp
next
  case (Cons c s)
  show ?case
  proof (cases "is_json_space c")
    case True
    with Cons show ?thesis by simp
  next
    case False
    have "begin_value c [] \<noteq> Failed"
    proof
      assume "begin_value c [] = Failed"
      with False Cons.prems show False by (simp add: foldl_step_Failed)
    qed
    with False show ?thesis by simp
  qed
qed

lemma begin_value_first:
  "begin_value c st \<noteq> Failed \<Longrightarrow> \<not> is_space c \<and> c \<noteq> CHR 0x60"
  by (auto simp: begin_value_def Let_def is_digit_def is_space_def split: if_splits)

lemma json_space_is_space: "is_json_space c \<Longrightarrow> is_space c"
  by (auto simp: is_json_space_def is_space_def)

lemma dropWhile_space_json:
  assumes "dropWhile is_json_space s = c # r" and "\<not> is_space c"
  shows "dropWhile is_space s = c # r"
proof -
  have "s = takeWhile is_json_space s @ c # r"
    using assms(1) by (metis takeWhile_dropWhile_id)
  moreover have "\<forall>x \<in> set (takeWhile is_json_space s). is_space x"
    by (meson json_space_is_space set_takeWhileD)
  ultimately show ?thesis
    using assms(2) by (metis dropWhile.simps(2) dropWhile_append2)
qed

lemma rev_dropWhile_snoc:
  assumes "\<not> P c" shows "\<exists>r. rev (dropWhile P (xs @ [c])) = c # r"
proof (cases "\<forall>x \<in> set xs. P x")
  case True
  with assms have "dropWhile P (xs @ [c]) = [c]" by simp
  then show ?thesis by simp
next
  case False
  then have "dropWhile P (xs @ [c]) = dropWhile P xs @ [c]"
    by (auto simp: dropWhile_append1)
  then show ?thesis by simp
qed

lemma trim_first:
  assumes "dropWhile is_space s = c # r" and "\<not> is_space c"
  shows "\<exists>r'. trim s = c # r'"
  using rev_dropWhile_snoc [of is_space c "rev r"] assms by (simp add: trim_def)

lemma codeBlock_no_fence: "c \<noteq> CHR 0x60 \<Longrightarrow> codeBlock (c # r) = None"
  by (simp add: codeBlock_def)

lemma JSON_text_no_fence:
  assumes "JSON_parse s \<noteq> None"
  shows "strip_fence s = trim s"
proof -
  from assms obtain c r where d: "dropWhile is_json_space s = c # r" and b: "begin_value c [] \<noteq> Failed"
    unfolding JSON_parse_def using JSON_parse_first by blast
  from b have c: "\<not> is_space c" "c \<noteq> CHR 0x60"
    using begin_value_first by blast+
  from d c(1) have "dropWhile is_space s = c # r"
    by (rule dropWhile_space_json)
  then obtain r' where "trim s = c # r'"
    using trim_first c(1) by blast
  then show ?thesis
    by (simp add: strip_fence_def codeBlock_no_fence [OF c(2)])
qed

text \<open>A text that is itself fenced is not a JSON text, and wrapping it changes the
  result: the bare form is unwrapped, the wrapped form is unwrapped only once.\<close>

lemma fenced_text_wrapped_again:
  \<open>parseEditsFromLLM ''```[]```'' [] None None = Inr []
   \<and> parseEditsFromLLM (fenced ''```[]```'') [] None None = Inl (Error ''Invalid LLM response'')\<close>
  by code_simp

subsection \<open>Properties of the edit parser\<close>



lemma same_slot_total: "d \<noteq> JNull \<Longrightarrow> \<exists>b. same_slot item d = Inr b"
  by (simp add: same_slot_def)

lemma find_js_total:
  "JNull \<notin> set ds \<Longrightarrow>
   find_js (same_slot item) ds = Inr None \<or>
   (\<exists>d \<in> set ds. find_js (same_slot item) ds = Inr (Some d))"
proof (induction ds)
  case Nil
  then show ?case by simp
next
  case (Cons d ds)
  then obtain b where "same_slot item d = Inr b"
    using same_slot_total [of d item] by auto
  with Cons show ?case by (cases b) auto
qed

lemma or_else_not_null [simp]: "d \<noteq> JNull \<Longrightarrow> or_else v d \<noteq> JNull"
  by (cases "(v, d)" rule: or_else.cases) auto

lemma resolveIdPath_total:
  assumes "JNull \<notin> set dictionary" and "JNull \<notin> set slots"
  shows "\<exists>i p. resolveIdPath item dictionary slots = Inr (i, p) \<and> i \<noteq> JNull \<and> p \<noteq> JNull"
proof -
  obtain a where a: "find_js (same_slot item) dictionary = Inr a"
    using find_js_total [OF assms(1), of item] by blast
  obtain b where b: "find_js (same_slot item) slots = Inr b"
    using find_js_total [OF assms(2), of item] by blast
  show ?thesis
    by (simp add: resolveIdPath_def a b Let_def)
qed












text \<open>A \<^verbatim>\<open>null\<close> entry of the dictionary makes the edit parser throw a \<^verbatim>\<open>TypeError\<close>.\<close>

lemma parseEdits_TypeError_on_null_entry:
  \<open>parseEditsFromLLM ''[{"id":"a","new_text":"x"}]'' [JNull] None None = Inl TypeError\<close>
  by code_simp




lemma non_null_append: "non_null (xs @ ys) = non_null xs @ non_null ys"
  by (induction xs rule: non_null.induct) auto


lemma copy_item_without_text:
  "nullish (property item ''new_text'') \<Longrightarrow>
   copy_item item i p = Inr (copy_links_images item (bare_edit i p))"
  by (simp add: copy_item_def)

lemma filter_text_only:
  "filterByCapabilities (copy_links_images item (bare_edit i p)) [JString ''text''] = None"
  by (simp add: filterByCapabilities_def copy_links_images_def Let_def copy_image_def copy_url_def
      copy_text_def includes_js_def bare_edit_def hasPayload_def)

lemma map_js_append:
  "map_js f (xs @ ys) =
     (case map_js f xs of
        Inl e \<Rightarrow> Inl e
      | Inr rs \<Rightarrow> (case map_js f ys of Inl e \<Rightarrow> Inl e | Inr rs' \<Rightarrow> Inr (rs @ rs')))"
  by (induction xs) (auto split: sum.splits)










subsection \<open>Properties of the kit parser\<close>

















section \<open>Claims about the edit parser\<close>




text \<open>
  C4. When the capability set is exactly \<^verbatim>\<open>["text"]\<close> (given, or taken by default
  when the argument is missing or not an array), an element without \<^verbatim>\<open>new_text\<close>
  (whatever else it carries: \<^verbatim>\<open>new_url\<close>, a link, an image) is left without payload by
  the capability filter, and whatever the call returns is what it returns for the array
  without that element. When the dictionary and the image slots hold no \<^verbatim>\<open>null\<close> entry,
  the call with the element and the call without it agree altogether.
\<close>

theorem text_capability_drops_edit_without_text:
  assumes parse: "JSON_parse (strip_fence raw) = Some (JArray (xs @ item # ys))"
    and no_text: "nullish (property item ''new_text'')"
    and caps: "caps_of edit_capabilities = [JString ''text'']"
  shows "(\<forall>r. edit_of dictionary (slots_of image_slots) [JString ''text''] item = Inr r \<longrightarrow> r = None)
     \<and> (\<forall>es. parseEditsFromLLM raw dictionary image_slots edit_capabilities = Inr es \<longrightarrow>
          edits_of_array (xs @ ys) dictionary (slots_of image_slots) [JString ''text''] = Inr es)
     \<and> (JNull \<notin> set dictionary \<and> JNull \<notin> set (slots_of image_slots) \<longrightarrow>
          edit_of dictionary (slots_of image_slots) [JString ''text''] item = Inr None
          \<and> parseEditsFromLLM raw dictionary image_slots edit_capabilities
              = edits_of_array (xs @ ys) dictionary (slots_of image_slots) [JString ''text''])"
proof -
  let ?f = "edit_of dictionary (slots_of image_slots) [JString ''text'']"
  have none: "r = None" if "?f item = Inr r" for r
    using that copy_item_without_text [OF no_text] filter_text_only
    by (auto simp: edit_of_def split: sum.splits prod.splits)
  have call: "parseEditsFromLLM raw dictionary image_slots edit_capabilities
      = edits_of_array (xs @ item # ys) dictionary (slots_of image_slots) [JString ''text'']"
    by (simp add: parseEditsFromLLM_def parse caps)
  have without: "edits_of_array (xs @ item # ys) dictionary (slots_of image_slots) [JString ''text'']
      = edits_of_array (xs @ ys) dictionary (slots_of image_slots) [JString ''text'']"
    if "?f item = Inr None \<or> \<not> candidate item"
    using that
    by (auto simp: edits_of_array_def map_js_append non_null_append split: sum.splits)
  have returned: "edits_of_array (xs @ ys) dictionary (slots_of image_slots) [JString ''text''] = Inr es"
    if es: "parseEditsFromLLM raw dictionary image_slots edit_capabilities = Inr es" for es
  proof (cases "candidate item")
    case True
    from es obtain rs where "map_js ?f (filter candidate (xs @ item # ys)) = Inr rs"
      by (auto simp: call edits_of_array_def split: sum.splits)
    with True obtain r where "?f item = Inr r"
      by (auto simp: map_js_append split: sum.splits)
    with none have "?f item = Inr None"
      by blast
    with without es show ?thesis
      by (simp add: call)
  next
    case False
    with without es show ?thesis
      by (simp add: call)
  qed
  have typed: "?f item = Inr None
      \<and> parseEditsFromLLM raw dictionary image_slots edit_capabilities
          = edits_of_array (xs @ ys) dictionary (slots_of image_slots) [JString ''text'']"
    if "JNull \<notin> set dictionary \<and> JNull \<notin> set (slots_of image_slots)"
  proof -
    from that obtain i p where "resolveIdPath item dictionary (slots_of image_slots) = Inr (i, p)"
      using resolveIdPath_total [of dictionary "slots_of image_slots" item] by blast
    then have "?f item = Inr None"
      using copy_item_without_text [OF no_text] filter_text_only by (simp add: edit_of_def)
    with without show ?thesis
      by (simp add: call)
  qed
  from none returned typed show ?thesis
    by blast
qed

theorem text_capability_drops_edit_without_text_witness:
  \<open>JSON_parse (strip_fence ''[{"id":"x","new_text":"T"},{"id":"z","new_url":"u"}]'')
     = Some (JArray ([JObject [(''id'', JString ''x''), (''new_text'', JString ''T'')]]
                     @ JObject [(''id'', JString ''z''), (''new_url'', JString ''u'')] # []))
   \<and> nullish (property (JObject [(''id'', JString ''z''), (''new_url'', JString ''u'')]) ''new_text'')
   \<and> edit_of [] [] [JString ''text''] (JObject [(''id'', JString ''z''), (''new_url'', JString ''u'')])
     = Inr None
   \<and> parseEditsFromLLM ''[{"id":"x","new_text":"T"},{"id":"z","new_url":"u"}]'' [] None
       (Some (JArray [JString ''text'']))
     = Inr [bare_edit (JString ''x'') (JString []) \<lparr>new_text := Some ''T''\<rparr>]\<close>
proof -
  let ?raw = \<open>''[{"id":"x","new_text":"T"},{"id":"z","new_url":"u"}]''\<close>
  let ?x = "JObject [(''id'', JString ''x''), (''new_text'', JString ''T'')]"
  let ?z = "JObject [(''id'', JString ''z''), (''new_url'', JString ''u'')]"
  have parse: "JSON_parse (strip_fence ?raw) = Some (JArray ([?x] @ ?z # []))"
    by code_simp
  have no_text: "nullish (property ?z ''new_text'')"
    by (simp add: nullish_def)
  have rest: "edits_of_array ([?x] @ []) [] (slots_of None) [JString ''text'']
      = Inr [bare_edit (JString ''x'') (JString []) \<lparr>new_text := Some ''T''\<rparr>]"
    by code_simp
  have caps: "caps_of (Some (JArray [JString ''text''])) = [JString ''text'']"
    by simp
  have typed: "JNull \<notin> set [] \<and> JNull \<notin> set (slots_of None)"
    by simp
  note t = text_capability_drops_edit_without_text [OF parse no_text caps, of "[]" None]
  from t typed have 1: "edit_of [] [] [JString ''text''] ?z = Inr None"
    by simp
  from t typed have "parseEditsFromLLM ?raw [] None (Some (JArray [JString ''text'']))
      = edits_of_array ([?x] @ []) [] (slots_of None) [JString ''text'']"
    by blast
  with rest have 2: "parseEditsFromLLM ?raw [] None (Some (JArray [JString ''text'']))
      = Inr [bare_edit (JString ''x'') (JString []) \<lparr>new_text := Some ''T''\<rparr>]"
    by simp
  from parse no_text 1 2 show ?thesis
    by (intro conjI)
qed



section \<open>Claims about the kit parser\<close>

text \<open>
  C2. The claim: \<^verbatim>\<open>parseKitPatchFromLLM\<close> throws whenever the parsed value is not a
  non-null object or is an array. The check of the code is
  \<^verbatim>\<open>obj == null || typeof obj !== 'object'\<close>, and \<^verbatim>\<open>typeof\<close> of an array is
  \<^verbatim>\<open>'object'\<close>: a text that parses to an array is accepted and gives the empty patch,
  whatever the array holds. A text that does not parse, or parses to \<^verbatim>\<open>null\<close>, a boolean,
  a number or a string, is rejected with \<^verbatim>\<open>Error('Invalid LLM response for kit')\<close>.
\<close>

theorem kit_array_accepted:
  \<open>(JSON_parse (strip_fence raw) = Some (JArray xs) \<longrightarrow>
      parseKitPatchFromLLM raw = Inr \<lparr>colors = None, typography = None, settings = None\<rparr>)
   \<and> (JSON_parse (strip_fence raw) = None \<longrightarrow>
      parseKitPatchFromLLM raw = Inl (Error ''Invalid LLM response for kit''))
   \<and> (JSON_parse (strip_fence raw) = Some v \<and> (\<forall>xs. v \<noteq> JArray xs) \<and> (\<forall>m. v \<noteq> JObject m) \<longrightarrow>
      parseKitPatchFromLLM raw = Inl (Error ''Invalid LLM response for kit''))
   \<and> parseKitPatchFromLLM ''[]'' = Inr \<lparr>colors = None, typography = None, settings = None\<rparr>\<close>
proof (intro conjI impI)
  assume "JSON_parse (strip_fence raw) = Some (JArray xs)"
  then show "parseKitPatchFromLLM raw = Inr \<lparr>colors = None, typography = None, settings = None\<rparr>"
    by (simp add: parseKitPatchFromLLM_def nullish_def kit_patch_of_def patch_colors_def
        patch_typography_def patch_settings_def)
next
  assume "JSON_parse (strip_fence raw) = None"
  then show "parseKitPatchFromLLM raw = Inl (Error ''Invalid LLM response for kit'')"
    by (simp add: parseKitPatchFromLLM_def)
next
  assume "JSON_parse (strip_fence raw) = Some v \<and> (\<forall>xs. v \<noteq> JArray xs) \<and> (\<forall>m. v \<noteq> JObject m)"
  then show "parseKitPatchFromLLM raw = Inl (Error ''Invalid LLM response for kit'')"
    by (cases v) (simp_all add: parseKitPatchFromLLM_def nullish_def)
next
  show "parseKitPatchFromLLM ''[]'' = Inr \<lparr>colors = None, typography = None, settings = None\<rparr>"
    by code_simp
qed

theorem kit_array_accepted_witness:
  \<open>JSON_parse (strip_fence ''[{"colors":[{"_id":"primary","value":"#112233"}]}]'')
       = Some (JArray [JObject [(''colors'',
                 JArray [JObject [(''_id'', JString ''primary''), (''value'', JString ''#112233'')]])]])
   \<and> parseKitPatchFromLLM ''[{"colors":[{"_id":"primary","value":"#112233"}]}]''
       = Inr \<lparr>colors = None, typography = None, settings = None\<rparr>
   \<and> JSON_parse (strip_fence ''"colors"'') = Some (JString ''colors'')
   \<and> parseKitPatchFromLLM ''"colors"'' = Inl (Error ''Invalid LLM response for kit'')
   \<and> JSON_parse (strip_fence ''{colors}'') = None
   \<and> parseKitPatchFromLLM ''{colors}'' = Inl (Error ''Invalid LLM response for kit'')\<close>
proof -
  have a: \<open>JSON_parse (strip_fence ''[{"colors":[{"_id":"primary","value":"#112233"}]}]'')
       = Some (JArray [JObject [(''colors'',
                 JArray [JObject [(''_id'', JString ''primary''), (''value'', JString ''#112233'')]])]])\<close>
    by code_simp
  have b: \<open>JSON_parse (strip_fence ''"colors"'') = Some (JString ''colors'')\<close>
    by code_simp
  have c: \<open>JSON_parse (strip_fence ''{colors}'') = None\<close>
    by code_simp
  from a have 1: \<open>parseKitPatchFromLLM ''[{"colors":[{"_id":"primary","value":"#112233"}]}]''
       = Inr \<lparr>colors = None, typography = None, settings = None\<rparr>\<close>
    using kit_array_accepted [where raw = \<open>''[{"colors":[{"_id":"primary","value":"#112233"}]}]''\<close>]
    by blast
  from b have 2: \<open>parseKitPatchFromLLM ''"colors"'' = Inl (Error ''Invalid LLM response for kit'')\<close>
    using kit_array_accepted [where raw = \<open>''"colors"''\<close> and v = "JString ''colors''"]
    by blast
  from c have 3: \<open>parseKitPatchFromLLM ''{colors}'' = Inl (Error ''Invalid LLM response for kit'')\<close>
    using kit_array_accepted [where raw = \<open>''{colors}''\<close>]
    by blast
  from a 1 b 2 c 3 show ?thesis
    by (intro conjI)
qed

text \<open>
  C3. The claim: the text \<^verbatim>\<open>{"typography":[{"_id":"x"}]}\<close> yields the empty patch. The
  code decides the presence of the \<^verbatim>\<open>typography\<close> key on the array of the input, before
  its entries are filtered: the single entry, which has no key but \<^verbatim>\<open>_id\<close>, is dropped,
  and the patch keeps the key \<^verbatim>\<open>typography\<close> with the empty array.
\<close>

theorem kit_typography_key_kept_with_empty_array:
  \<open>parseKitPatchFromLLM ''{"typography":[{"_id":"x"}]}''
     = Inr \<lparr>colors = None, typography = Some [], settings = None\<rparr>\<close>
  by code_simp

theorem kit_typography_not_empty_patch_counterexample:
  \<open>parseKitPatchFromLLM ''{"typography":[{"_id":"x"}]}''
     \<noteq> Inr \<lparr>colors = None, typography = None, settings = None\<rparr>\<close>
  by code_simp




section \<open>Claims about malformed and fenced responses\<close>

text \<open>
  C8. The text \<^verbatim>\<open>not json\<close> does not parse and the text \<^verbatim>\<open>42\<close> parses to a number:
  for both, \<^verbatim>\<open>parseEditsFromLLM\<close> throws \<^verbatim>\<open>Error('Invalid LLM response')\<close> and
  \<^verbatim>\<open>parseKitPatchFromLLM\<close> throws \<^verbatim>\<open>Error('Invalid LLM response for kit')\<close>, whatever
  the other arguments are.
\<close>

theorem invalid_response_on_malformed_text_and_number:
  \<open>JSON_parse (strip_fence ''not json'') = None
   \<and> JSON_parse (strip_fence ''42'') = Some (JNumber False ''42'' 2)
   \<and> parseEditsFromLLM ''not json'' dictionary image_slots edit_capabilities
       = Inl (Error ''Invalid LLM response'')
   \<and> parseEditsFromLLM ''42'' dictionary image_slots edit_capabilities
       = Inl (Error ''Invalid LLM response'')
   \<and> parseKitPatchFromLLM ''not json'' = Inl (Error ''Invalid LLM response for kit'')
   \<and> parseKitPatchFromLLM ''42'' = Inl (Error ''Invalid LLM response for kit'')\<close>
proof -
  have a: "JSON_parse (strip_fence ''not json'') = None"
    by code_simp
  have b: "JSON_parse (strip_fence ''42'') = Some (JNumber False ''42'' 2)"
    by code_simp
  show ?thesis
    by (simp add: parseEditsFromLLM_def parseKitPatchFromLLM_def a b nullish_def)
qed

text \<open>
  C6. For every JSON text \<open>s\<close> (a text \<^verbatim>\<open>JSON.parse\<close> accepts), the fence-wrapped
  form of \<open>s\<close> and \<open>s\<close> itself give the same result, in both parsers: stripping the
  fence and trimming again gives the trimmed \<open>s\<close>, which is what the bare form gives.
\<close>

theorem fenced_json_text_same_result:
  assumes "JSON_parse s \<noteq> None"
  shows "strip_fence (fenced s) = trim s
     \<and> strip_fence (fenced s) = strip_fence s
     \<and> parseEditsFromLLM (fenced s) dictionary image_slots edit_capabilities
         = parseEditsFromLLM s dictionary image_slots edit_capabilities
     \<and> parseKitPatchFromLLM (fenced s) = parseKitPatchFromLLM s"
proof -
  have "strip_fence (fenced s) = strip_fence s"
    using JSON_text_no_fence [OF assms] strip_fence_fenced [of s] by simp
  then show ?thesis
    by (simp add: strip_fence_fenced parseEditsFromLLM_def parseKitPatchFromLLM_def)
qed

theorem fenced_json_text_same_result_witness:
  \<open>JSON_parse '' [{"path":"/a","new_text":"Hi"}] ''
      = Some (JArray [JObject [(''path'', JString ''/a''), (''new_text'', JString ''Hi'')]])
   \<and> strip_fence (fenced '' [{"path":"/a","new_text":"Hi"}] '') = ''[{"path":"/a","new_text":"Hi"}]''
   \<and> parseEditsFromLLM (fenced '' [{"path":"/a","new_text":"Hi"}] '') [] None None
      = Inr [bare_edit (JString []) (JString ''/a'') \<lparr>new_text := Some ''Hi''\<rparr>]
   \<and> parseKitPatchFromLLM (fenced '' [{"path":"/a","new_text":"Hi"}] '')
      = Inr \<lparr>colors = None, typography = None, settings = None\<rparr>\<close>
proof -
  let ?s = \<open>'' [{"path":"/a","new_text":"Hi"}] ''\<close>
  have parse: "JSON_parse ?s = Some (JArray [JObject [(''path'', JString ''/a''), (''new_text'', JString ''Hi'')]])"
    by code_simp
  then have ok: "JSON_parse ?s \<noteq> None"
    by simp
  have trimmed: \<open>trim ?s = ''[{"path":"/a","new_text":"Hi"}]''\<close>
    by code_simp
  have edits: "parseEditsFromLLM ?s [] None None
      = Inr [bare_edit (JString []) (JString ''/a'') \<lparr>new_text := Some ''Hi''\<rparr>]"
    by code_simp
  have kit: "parseKitPatchFromLLM ?s = Inr \<lparr>colors = None, typography = None, settings = None\<rparr>"
    by code_simp
  note t = fenced_json_text_same_result [OF ok, of "[]" None None]
  from t trimmed have 1: \<open>strip_fence (fenced ?s) = ''[{"path":"/a","new_text":"Hi"}]''\<close>
    by simp
  from t edits have 2: "parseEditsFromLLM (fenced ?s) [] None None
      = Inr [bare_edit (JString []) (JString ''/a'') \<lparr>new_text := Some ''Hi''\<rparr>]"
    by simp
  from t kit have 3: "parseKitPatchFromLLM (fenced ?s)
      = Inr \<lparr>colors = None, typography = None, settings = None\<rparr>"
    by simp
  from parse 1 2 3 show ?thesis
    by (intro conjI)
qed

section \<open>Claims about the store of recent requests\<close>



text \<open>
  C10. After any sequence of calls of \<^verbatim>\<open>addRequest\<close> (and whatever else the program
  did with the arrays \<^verbatim>\<open>getRequests\<close> returned), whatever the \<^verbatim>\<open>contextType\<close>
  arguments were, every record in the buffer has \<^verbatim>\<open>contextType\<close> \<^verbatim>\<open>'kit'\<close> or
  \<^verbatim>\<open>'page'\<close>; and an argument other than the string \<^verbatim>\<open>'kit'\<close> is stored as \<^verbatim>\<open>'page'\<close>.
\<close>

theorem audit_contextType_kit_or_page:
  "(\<forall>rec \<in> set (heap (add_calls cs init_store) requests).
      contextType rec = ''kit'' \<or> contextType rec = ''page'')
   \<and> (\<forall>rec \<in> set (heap (fst (run acts)) requests).
      contextType rec = ''kit'' \<or> contextType rec = ''page'')
   \<and> (c \<noteq> Some (JString ''kit'') \<longrightarrow> contextType (new_record i b r c now) = ''page'')
   \<and> contextType (new_record i b r (Some (JString ''kit'')) now) = ''kit''"
proof -
  have "contextType rec = ''kit'' \<or> contextType rec = ''page''"
    if "rec \<in> set (heap (add_calls cs init_store) requests)" for rec
  proof -
    from that have "rec \<in> set (rev (map record_of cs))"
      unfolding buffer_from_init by (rule in_set_takeD)
    then obtain c where "rec = record_of c"
      by auto
    then show ?thesis
      by (simp add: contextType_record_of)
  qed
  moreover have "contextType rec = ''kit'' \<or> contextType rec = ''page''"
    if "rec \<in> set (heap (fst (run acts)) requests)" for rec
  proof -
    from that have "rec \<in> set (rev (map record_of (added acts)))"
      unfolding buffer_after_run by (rule in_set_takeD)
    then obtain c where "rec = record_of c"
      by auto
    then show ?thesis
      by (simp add: contextType_record_of)
  qed
  moreover have "contextType (new_record i b r c now) = ''page''" if "c \<noteq> Some (JString ''kit'')"
  proof -
    from that have "\<not> strict_eq c (Some (JString ''kit''))"
      by (cases "(c, Some (JString ''kit''))" rule: strict_eq.cases) auto
    then show ?thesis by (simp add: new_record_def)
  qed
  moreover have "contextType (new_record i b r (Some (JString ''kit'')) now) = ''kit''"
    by (simp add: new_record_def)
  ultimately show ?thesis by blast
qed

theorem audit_contextType_kit_or_page_witness:
  "map contextType (heap (add_calls
      [(''a'', (), (), Some (JString ''kit''), ''t1''),
       (''b'', (), (), Some (JString ''Kit''), ''t2''),
       (''c'', (), (), None, ''t3''),
       (''d'', (), (), Some (JArray [JString ''kit'']), ''t4'')] init_store) requests)
     = [''page'', ''page'', ''page'', ''kit'']
   \<and> map contextType (heap (fst (run
      [Add (''a'', (), (), Some (JString ''kit''), ''t1''), Get, Mutate 1 [],
       Add (''b'', (), (), Some (JString ''Kit''), ''t2''), Mutate 0 []])) requests)
     = [''page'', ''kit'']
   \<and> Some (JString ''Kit'') \<noteq> Some (JString ''kit'')
   \<and> contextType (new_record ''b'' () () (Some (JString ''Kit'')) ''t2'') = ''page''"
  using audit_contextType_kit_or_page
    [where cs = "[(''a'', (), (), Some (JString ''kit''), ''t1''),
       (''b'', (), (), Some (JString ''Kit''), ''t2''),
       (''c'', (), (), None, ''t3''),
       (''d'', (), (), Some (JArray [JString ''kit'']), ''t4'')]"
      and acts = "[Add (''a'', (), (), Some (JString ''kit''), ''t1''), Get, Mutate 1 [],
       Add (''b'', (), (), Some (JString ''Kit''), ''t2''), Mutate 0 []]"
      and c = "Some (JString ''Kit'')" and i = "''b''" and b = "()" and r = "()" and now = "''t2''"]
  by (simp add: buffer_from_init buffer_after_run new_record_def MAX_REQUESTS_def)

end
